theory Spec2Isabelle
  imports Main "HOL-Library.Char_ord" "HOL-Library.List_Lexorder"
begin

section \<open>JavaScript values\<close>

text \<open>
  The journal is written in JavaScript: every field of an Entry can hold any value, and
  \<open>Entry.update\<close> stores whatever it is handed. The embedding therefore keeps the fields
  dynamically typed. A value is \<open>undefined\<close>, \<open>null\<close>, a boolean, a number, a string, an
  array or a plain object (own data properties in insertion order, no two with the same
  key).

  Numbers are the doubles with an integer value, and \<open>NaN\<close>: \<open>JNum n\<close> is the double
  that is exactly \<open>n\<close> (every \<open>n\<close> of magnitude up to 2^53, the even ones up to 2^54 and
  so on); fractions, the infinities and the negative zero are not values of the model.
  The only arithmetic of the source is \<open>editCount += 1\<close>, which rounds as doubles do.

  A string is the UTF-8 encoding of the JavaScript string (\<open>char\<close> is a byte), so that
  every text a form field can deliver is a value; a string with a lone surrogate has
  no encoding and is left out. The source never asks for the length of a string.
\<close>

datatype jsval =
    JUndefined
  | JNull
  | JBool bool
  | JNum int
  | JNaN
  | JStr string
  | JArr "jsval list"
  | JObj "(string \<times> jsval) list"

datatype jserror = TypeError

text \<open>How a call ends: normally, or with an exception thrown to the caller.\<close>

datatype outcome = Ok | Threw jserror

text \<open>\<open>if (v)\<close>, \<open>!v\<close>, \<open>v || d\<close>, \<open>c ? a : b\<close>: arrays and objects are always truthy.\<close>

fun truthy :: "jsval \<Rightarrow> bool" where
  "truthy JUndefined = False"
| "truthy JNull = False"
| "truthy (JBool b) = b"
| "truthy (JNum n) = (n \<noteq> 0)"
| "truthy JNaN = False"
| "truthy (JStr s) = (s \<noteq> [])"
| "truthy (JArr xs) = True"
| "truthy (JObj ps) = True"

definition js_or :: "jsval \<Rightarrow> jsval \<Rightarrow> jsval" where
  "js_or v d = (if truthy v then v else d)"

text \<open>\<open>obj.key\<close> on a plain object: the own property, \<open>undefined\<close> when there is none.\<close>

definition get_prop :: "(string \<times> jsval) list \<Rightarrow> string \<Rightarrow> jsval" where
  "get_prop ps k = (case map_of ps k of None \<Rightarrow> JUndefined | Some v \<Rightarrow> v)"

section \<open>The platform\<close>

text \<open>
  What the browser supplies and the repository only calls. \<open>toLocaleDateString P v\<close> is
  the text \<open>new Date(v).toLocaleDateString('en-US', {weekday: 'long', year: 'numeric',
  month: 'long', day: 'numeric'})\<close> gives when \<open>new Date(v)\<close> does not throw;
  \<open>toLowerCase_beyond_ascii\<close> is \<open>String.prototype.toLowerCase\<close> on the strings that are
  not plain ASCII (it follows the Unicode tables and the context of a letter);
  \<open>toString_beyond_safe\<close> is \<open>Number.prototype.toString\<close> on the integers of magnitude
  2^53 and more (it prints the shortest digits that read back as the same double);
  \<open>JSON_parse\<close> gives \<open>None\<close> where \<open>JSON.parse\<close> throws; \<open>JSON_stringify\<close> is
  \<open>JSON.stringify(v)\<close> and \<open>JSON_stringify_pretty\<close> is \<open>JSON.stringify(v, null, 2)\<close>;
  \<open>setItem_ok P items k v\<close> tells whether \<open>localStorage.setItem(k, v)\<close> succeeds on a
  store holding \<open>items\<close> (it throws when the store is missing, disabled or full);
  \<open>error_message\<close> is the \<open>message\<close> of a caught exception. Every reading of the clock
  (\<open>Date.now()\<close>, \<open>new Date().toISOString()\<close>) is an argument of the function that takes
  it, one argument for each reading.
\<close>

record platform =
  toLocaleDateString :: "jsval \<Rightarrow> string"
  toLowerCase_beyond_ascii :: "string \<Rightarrow> string"
  toString_beyond_safe :: "int \<Rightarrow> string"
  JSON_parse :: "string \<Rightarrow> jsval option"
  JSON_stringify :: "jsval \<Rightarrow> string"
  JSON_stringify_pretty :: "jsval \<Rightarrow> string"
  setItem_ok :: "(string \<rightharpoonup> string) \<Rightarrow> string \<Rightarrow> string \<Rightarrow> bool"
  error_message :: "jserror \<Rightarrow> string"

section \<open>Strings and numbers\<close>

subsection \<open>\<open>trim\<close>\<close>

text \<open>
  \<open>String.prototype.trim\<close> strips white space and line terminators from both ends. In
  UTF-8 these characters are: one byte for TAB, LF, VT, FF, CR and SPACE; C2 A0 for
  U+00A0; three bytes for U+1680 (E1 9A 80), U+2000 to U+200A, U+2028, U+2029 and
  U+202F (E2 80 and a third byte), U+205F (E2 81 9F), U+3000 (E3 80 80) and U+FEFF
  (EF BB BF).
\<close>

definition space1 :: "char \<Rightarrow> bool" where
  "space1 a = ((of_char a :: nat) \<in> {9, 10, 11, 12, 13, 32})"

definition space2 :: "char \<Rightarrow> char \<Rightarrow> bool" where
  "space2 a b = ((of_char a :: nat) = 194 \<and> (of_char b :: nat) = 160)"

definition space3 :: "char \<Rightarrow> char \<Rightarrow> char \<Rightarrow> bool" where
  "space3 a b c =
     (let x = (of_char a :: nat); y = (of_char b :: nat); z = (of_char c :: nat)
      in (x = 225 \<and> y = 154 \<and> z = 128) \<or>
         (x = 226 \<and> y = 128 \<and> ((128 \<le> z \<and> z \<le> 138) \<or> z = 168 \<or> z = 169 \<or> z = 175)) \<or>
         (x = 226 \<and> y = 129 \<and> z = 159) \<or>
         (x = 227 \<and> y = 128 \<and> z = 128) \<or>
         (x = 239 \<and> y = 187 \<and> z = 191))"

text \<open>White space taken from the front of a string.\<close>

fun trimStart :: "string \<Rightarrow> string" where
  "trimStart (a # b # c # s) =
     (if space1 a then trimStart (b # c # s)
      else if space2 a b then trimStart (c # s)
      else if space3 a b c then trimStart s
      else a # b # c # s)"
| "trimStart [a, b] =
     (if space1 a then trimStart [b] else if space2 a b then [] else [a, b])"
| "trimStart [a] = (if space1 a then [] else [a])"
| "trimStart [] = []"

text \<open>The same from the end, on the reversed string: its first byte is the last byte of
  the string.\<close>

fun trimEnd_rev :: "string \<Rightarrow> string" where
  "trimEnd_rev (c # b # a # s) =
     (if space1 c then trimEnd_rev (b # a # s)
      else if space2 b c then trimEnd_rev (a # s)
      else if space3 a b c then trimEnd_rev s
      else c # b # a # s)"
| "trimEnd_rev [c, b] =
     (if space1 c then trimEnd_rev [b] else if space2 b c then [] else [c, b])"
| "trimEnd_rev [c] = (if space1 c then [] else [c])"
| "trimEnd_rev [] = []"

definition trim :: "string \<Rightarrow> string" where
  "trim s = rev (trimEnd_rev (rev (trimStart s)))"

subsection \<open>\<open>toLowerCase\<close>\<close>

text \<open>
  \<open>String.prototype.toLowerCase\<close>. On a string of ASCII characters it turns A to Z
  into a to z and nothing else; on any other string it is the platform's.
\<close>

definition is_ascii :: "char \<Rightarrow> bool" where
  "is_ascii c = ((of_char c :: nat) < 128)"

definition lower_char :: "char \<Rightarrow> char" where
  "lower_char c =
     (let n = (of_char c :: nat)
      in if 65 \<le> n \<and> n \<le> 90 then char_of (n + 32) else c)"

definition toLowerCase :: "platform \<Rightarrow> string \<Rightarrow> string" where
  "toLowerCase P s =
     (if list_all is_ascii s then map lower_char s else toLowerCase_beyond_ascii P s)"

subsection \<open>\<open>includes\<close> and \<open>join\<close>\<close>

fun starts_with :: "string \<Rightarrow> string \<Rightarrow> bool" where
  "starts_with s [] = True"
| "starts_with [] (c # x) = False"
| "starts_with (d # s) (c # x) = (d = c \<and> starts_with s x)"

text \<open>\<open>String.prototype.includes\<close>: the argument occurs as a contiguous substring.\<close>

fun includes_str :: "string \<Rightarrow> string \<Rightarrow> bool" where
  "includes_str [] x = (x = [])"
| "includes_str (c # s) x = (starts_with (c # s) x \<or> includes_str s x)"

text \<open>\<open>Array.prototype.join\<close> with a separator.\<close>

fun join :: "string \<Rightarrow> string list \<Rightarrow> string" where
  "join sep [] = []"
| "join sep [s] = s"
| "join sep (s # t # ss) = s @ sep @ join sep (t # ss)"

subsection \<open>Conversion to a string\<close>

fun digits :: "nat \<Rightarrow> string" where
  "digits n = (if n < 10 then [char_of (48 + n)] else digits (n div 10) @ [char_of (48 + n mod 10)])"

declare digits.simps [simp del]

text \<open>\<open>Number.prototype.toString\<close> on an integer: all its decimal digits while the
  magnitude is below 2^53, the platform's shortest digits from there on.\<close>

definition show_int :: "platform \<Rightarrow> int \<Rightarrow> string" where
  "show_int P i =
     (if \<bar>i\<bar> < 2 ^ 53
      then (if i < 0 then CHR ''-'' # digits (nat (- i)) else digits (nat i))
      else toString_beyond_safe P i)"

text \<open>
  \<open>ToString\<close>. An array joins the strings of its elements with commas, \<open>undefined\<close> and
  \<open>null\<close> elements giving the empty string. A plain object gives \<open>[object Object]\<close> through
  \<open>Object.prototype.toString\<close>, unless an own property \<open>toString\<close> hides that method: a
  data property is not callable and the conversion throws TypeError (\<open>None\<close>).
\<close>

fun js_toString :: "platform \<Rightarrow> jsval \<Rightarrow> string option"
  and js_toString_elems :: "platform \<Rightarrow> jsval list \<Rightarrow> string list option" where
  "js_toString P JUndefined = Some ''undefined''"
| "js_toString P JNull = Some ''null''"
| "js_toString P (JBool b) = Some (if b then ''true'' else ''false'')"
| "js_toString P (JNum n) = Some (show_int P n)"
| "js_toString P JNaN = Some ''NaN''"
| "js_toString P (JStr s) = Some s"
| "js_toString P (JArr xs) = map_option (join '','') (js_toString_elems P xs)"
| "js_toString P (JObj ps) =
     (if ''toString'' \<in> fst ` set ps then None else Some ''[object Object]'')"
| "js_toString_elems P [] = Some []"
| "js_toString_elems P (x # xs) =
     (case (if x = JUndefined \<or> x = JNull then Some [] else js_toString P x) of
        None \<Rightarrow> None
      | Some s \<Rightarrow> map_option ((#) s) (js_toString_elems P xs))"

subsection \<open>\<open>+ 1\<close>\<close>

text \<open>
  \<open>n + 1\<close> on the double \<open>n\<close>. The sum is exact while its magnitude is at most 2^53.
  Beyond, up to 2^54, the doubles are the even integers and \<open>n + 1\<close> lies half way
  between \<open>n\<close> and \<open>n + 2\<close>: the one with the even significand is taken. From 2^54 on
  the doubles are 4 or more apart and the sum rounds back to \<open>n\<close>.
\<close>

definition double_plus_one :: "int \<Rightarrow> int" where
  "double_plus_one n =
     (if \<bar>n + 1\<bar> \<le> 2 ^ 53 then n + 1
      else if \<bar>n\<bar> \<le> 2 ^ 54 then (if even (n div 2) then n else n + 2)
      else n)"

text \<open>\<open>v + 1\<close>: numeric addition unless \<open>v\<close> converts to a string, then concatenation.\<close>

fun plus_one :: "platform \<Rightarrow> jsval \<Rightarrow> jserror + jsval" where
  "plus_one P JUndefined = Inr JNaN"
| "plus_one P JNull = Inr (JNum 1)"
| "plus_one P (JBool b) = Inr (JNum (if b then 2 else 1))"
| "plus_one P (JNum n) = Inr (JNum (double_plus_one n))"
| "plus_one P JNaN = Inr JNaN"
| "plus_one P (JStr s) = Inr (JStr (s @ ''1''))"
| "plus_one P (JArr xs) =
     (case js_toString P (JArr xs) of
        None \<Rightarrow> Inl TypeError
      | Some s \<Rightarrow> Inr (JStr (s @ ''1'')))"
| "plus_one P (JObj ps) =
     (case js_toString P (JObj ps) of
        None \<Rightarrow> Inl TypeError
      | Some s \<Rightarrow> Inr (JStr (s @ ''1'')))"

text \<open>\<open>v.key\<close> on any value, for a key that is no built-in property of strings or arrays
  (the source reads \<open>id\<close> and \<open>data\<close> so): \<open>undefined\<close> and \<open>null\<close> have no properties
  and the access throws (\<open>None\<close>); only a plain object can carry the key.\<close>

fun get_member :: "jsval \<Rightarrow> string \<Rightarrow> jsval option" where
  "get_member JUndefined k = None"
| "get_member JNull k = None"
| "get_member (JObj ps) k = Some (get_prop ps k)"
| "get_member v k = Some JUndefined"

text \<open>
  \<open>new Date(v)\<close> turns an array or object \<open>v\<close> into a primitive first, as \<open>ToString\<close>
  does, and throws TypeError where that throws; on other values it never throws (it
  may give an invalid date, which \<open>toLocaleDateString\<close> prints as such).
\<close>

definition new_Date_throws :: "platform \<Rightarrow> jsval \<Rightarrow> bool" where
  "new_Date_throws P v = (js_toString P v = None)"

section \<open>The Entry model (config/appConfig.js)\<close>

text \<open>The fifteen own properties every Entry instance has; \<open>id\<close> is \<open>id_field\<close> here.\<close>

record entry =
  id_field :: jsval
  sourceType :: jsval
  sourceName :: jsval
  author :: jsval
  reflection :: jsval
  timestamp :: jsval
  lastEdited :: jsval
  dateFormatted :: jsval
  editCount :: jsval
  additionalNotes :: jsval
  keyTakeaways :: jsval
  relatedLinks :: jsval
  tags :: jsval
  rating :: jsval
  progress :: jsval

text \<open>\<open>formatDate()\<close>: \<open>new Date(this.timestamp)\<close> may throw, the formatting does not.\<close>

definition formatDate :: "platform \<Rightarrow> entry \<Rightarrow> jserror + string" where
  "formatDate P e =
     (if new_Date_throws P (timestamp e) then Inl TypeError
      else Inr (toLocaleDateString P (timestamp e)))"

text \<open>
  \<open>new Entry(data)\<close>; \<open>nowMs\<close> is \<open>Date.now()\<close> and \<open>nowIso\<close> is
  \<open>new Date().toISOString()\<close>, read only where \<open>data\<close> has no truthy id or timestamp.
  \<open>this.formatDate()\<close> is called, on the object under construction, only where \<open>data\<close>
  has no truthy \<open>dateFormatted\<close>; when it throws no entry is made.
\<close>

definition Entry ::
  "platform \<Rightarrow> int \<Rightarrow> string \<Rightarrow> (string \<times> jsval) list \<Rightarrow> jserror + entry" where
  "Entry P nowMs nowIso data =
     (let this = \<lparr> id_field = js_or (get_prop data ''id'') (JNum nowMs),
                    sourceType = get_prop data ''sourceType'',
                    sourceName = get_prop data ''sourceName'',
                    author = js_or (get_prop data ''author'') (JStr []),
                    reflection = get_prop data ''reflection'',
                    timestamp = js_or (get_prop data ''timestamp'') (JStr nowIso),
                    lastEdited = js_or (get_prop data ''lastEdited'') JNull,
                    dateFormatted = get_prop data ''dateFormatted'',
                    editCount = js_or (get_prop data ''editCount'') (JNum 0),
                    additionalNotes = js_or (get_prop data ''additionalNotes'') (JStr []),
                    keyTakeaways = js_or (get_prop data ''keyTakeaways'') (JArr []),
                    relatedLinks = js_or (get_prop data ''relatedLinks'') (JArr []),
                    tags = js_or (get_prop data ''tags'') (JArr []),
                    rating = js_or (get_prop data ''rating'') JNull,
                    progress = js_or (get_prop data ''progress'') (JStr []) \<rparr>
      in if truthy (get_prop data ''dateFormatted'') then Inr this
         else case formatDate P this of
                Inl err \<Rightarrow> Inl err
              | Inr formatted \<Rightarrow> Inr (this\<lparr>dateFormatted := JStr formatted\<rparr>))"

text \<open>\<open>Entry.create(formData)\<close>.\<close>

definition create ::
  "platform \<Rightarrow> int \<Rightarrow> string \<Rightarrow> (string \<times> jsval) list \<Rightarrow> jserror + entry" where
  "create P nowMs nowIso formData =
     Entry P nowMs nowIso
       [(''sourceType'', get_prop formData ''sourceType''),
        (''sourceName'', get_prop formData ''sourceName''),
        (''author'', get_prop formData ''author''),
        (''reflection'', get_prop formData ''reflection'')]"

text \<open>\<open>toObject()\<close>: the plain object handed to the storage.\<close>

definition toObject :: "entry \<Rightarrow> (string \<times> jsval) list" where
  "toObject e =
     [(''id'', id_field e),
      (''sourceType'', sourceType e),
      (''sourceName'', sourceName e),
      (''author'', author e),
      (''reflection'', reflection e),
      (''timestamp'', timestamp e),
      (''lastEdited'', lastEdited e),
      (''dateFormatted'', dateFormatted e),
      (''editCount'', editCount e),
      (''additionalNotes'', additionalNotes e),
      (''keyTakeaways'', keyTakeaways e),
      (''relatedLinks'', relatedLinks e),
      (''tags'', tags e),
      (''rating'', rating e),
      (''progress'', progress e)]"

text \<open>\<open>this.hasOwnProperty(key)\<close> and \<open>this[key] = value\<close> on an Entry.\<close>

definition hasOwnProperty :: "string \<Rightarrow> bool" where
  "hasOwnProperty k =
     (k \<in> {''id'', ''sourceType'', ''sourceName'', ''author'', ''reflection'', ''timestamp'',
           ''lastEdited'', ''dateFormatted'', ''editCount'', ''additionalNotes'',
           ''keyTakeaways'', ''relatedLinks'', ''tags'', ''rating'', ''progress''})"

definition set_field :: "string \<Rightarrow> jsval \<Rightarrow> entry \<Rightarrow> entry" where
  "set_field k v e =
     (if k = ''id'' then e\<lparr>id_field := v\<rparr>
      else if k = ''sourceType'' then e\<lparr>sourceType := v\<rparr>
      else if k = ''sourceName'' then e\<lparr>sourceName := v\<rparr>
      else if k = ''author'' then e\<lparr>author := v\<rparr>
      else if k = ''reflection'' then e\<lparr>reflection := v\<rparr>
      else if k = ''timestamp'' then e\<lparr>timestamp := v\<rparr>
      else if k = ''lastEdited'' then e\<lparr>lastEdited := v\<rparr>
      else if k = ''dateFormatted'' then e\<lparr>dateFormatted := v\<rparr>
      else if k = ''editCount'' then e\<lparr>editCount := v\<rparr>
      else if k = ''additionalNotes'' then e\<lparr>additionalNotes := v\<rparr>
      else if k = ''keyTakeaways'' then e\<lparr>keyTakeaways := v\<rparr>
      else if k = ''relatedLinks'' then e\<lparr>relatedLinks := v\<rparr>
      else if k = ''tags'' then e\<lparr>tags := v\<rparr>
      else if k = ''rating'' then e\<lparr>rating := v\<rparr>
      else if k = ''progress'' then e\<lparr>progress := v\<rparr>
      else e)"

text \<open>The body of the \<open>forEach\<close> in \<open>update\<close>, for one key of \<open>updates\<close>.\<close>

definition apply_update :: "string \<times> jsval \<Rightarrow> entry \<Rightarrow> entry" where
  "apply_update kv e =
     (if hasOwnProperty (fst kv) \<and> fst kv \<noteq> ''id'' \<and> fst kv \<noteq> ''timestamp''
      then set_field (fst kv) (snd kv) e else e)"

text \<open>
  \<open>update(updates)\<close>, \<open>now\<close> being \<open>new Date().toISOString()\<close>. The entry is changed in
  place: an exception from \<open>this.editCount += 1\<close> leaves the fields and \<open>lastEdited\<close>
  already written, one from \<open>this.formatDate()\<close> the new \<open>editCount\<close> as well.
\<close>

definition update :: "platform \<Rightarrow> string \<Rightarrow> (string \<times> jsval) list \<Rightarrow> entry \<Rightarrow> outcome \<times> entry" where
  "update P now updates e =
     (let e1 = fold apply_update updates e;
          e2 = e1\<lparr>lastEdited := JStr now\<rparr>
      in case plus_one P (editCount e2) of
           Inl err \<Rightarrow> (Threw err, e2)
         | Inr c \<Rightarrow>
             (let e3 = e2\<lparr>editCount := c\<rparr>
              in case formatDate P e3 of
                   Inl err \<Rightarrow> (Threw err, e3)
                 | Inr formatted \<Rightarrow> (Ok, e3\<lparr>dateFormatted := JStr formatted\<rparr>)))"

text \<open>
  The seven small mutations. Their arguments have the types of the source's JSDoc
  (\<open>string\<close>, \<open>number\<close>); the fields they work on may hold anything, and a receiver
  without the array method that is called throws TypeError before anything is written.
\<close>

definition addTakeaway :: "int \<Rightarrow> string \<Rightarrow> string \<Rightarrow> string \<Rightarrow> entry \<Rightarrow> outcome \<times> entry" where
  "addTakeaway nowMs createdIso editedIso takeaway e =
     (if takeaway \<noteq> [] \<and> trim takeaway \<noteq> [] then
        (case keyTakeaways e of
           JArr ts \<Rightarrow>
             (Ok, e\<lparr>keyTakeaways :=
                      JArr (ts @ [JObj [(''id'', JNum nowMs),
                                        (''text'', JStr (trim takeaway)),
                                        (''createdAt'', JStr createdIso)]]),
                    lastEdited := JStr editedIso\<rparr>)
         | _ \<Rightarrow> (Threw TypeError, e))
      else (Ok, e))"

text \<open>The callback \<open>t => t.id !== n\<close> of the two removals, \<open>n\<close> a number.\<close>

definition id_differs :: "int \<Rightarrow> jsval \<Rightarrow> bool" where
  "id_differs n t = (get_member t ''id'' \<noteq> Some (JNum n))"

definition removeTakeaway :: "string \<Rightarrow> int \<Rightarrow> entry \<Rightarrow> outcome \<times> entry" where
  "removeTakeaway editedIso takeawayId e =
     (case keyTakeaways e of
        JArr ts \<Rightarrow>
          (if list_ex (\<lambda>t. get_member t ''id'' = None) ts then (Threw TypeError, e)
           else (Ok, e\<lparr>keyTakeaways := JArr (filter (id_differs takeawayId) ts),
                       lastEdited := JStr editedIso\<rparr>))
      | _ \<Rightarrow> (Threw TypeError, e))"

definition addRelatedLink ::
  "int \<Rightarrow> string \<Rightarrow> string \<Rightarrow> string \<Rightarrow> string \<Rightarrow> entry \<Rightarrow> outcome \<times> entry" where
  "addRelatedLink nowMs createdIso editedIso url title e =
     (if url \<noteq> [] \<and> trim url \<noteq> [] then
        (case relatedLinks e of
           JArr ls \<Rightarrow>
             (Ok, e\<lparr>relatedLinks :=
                      JArr (ls @ [JObj [(''id'', JNum nowMs),
                                        (''url'', JStr (trim url)),
                                        (''title'', JStr (if trim title \<noteq> [] then trim title
                                                          else trim url)),
                                        (''createdAt'', JStr createdIso)]]),
                    lastEdited := JStr editedIso\<rparr>)
         | _ \<Rightarrow> (Threw TypeError, e))
      else (Ok, e))"

definition removeRelatedLink :: "string \<Rightarrow> int \<Rightarrow> entry \<Rightarrow> outcome \<times> entry" where
  "removeRelatedLink editedIso linkId e =
     (case relatedLinks e of
        JArr ls \<Rightarrow>
          (if list_ex (\<lambda>l. get_member l ''id'' = None) ls then (Threw TypeError, e)
           else (Ok, e\<lparr>relatedLinks := JArr (filter (id_differs linkId) ls),
                       lastEdited := JStr editedIso\<rparr>))
      | _ \<Rightarrow> (Threw TypeError, e))"

text \<open>
  \<open>addTag(tag)\<close>. \<open>this.tags.includes(x)\<close> is membership on an array and the substring
  test on a string; a string has no \<open>push\<close>, so a string receiver that does not contain
  the tag throws.
\<close>

definition addTag :: "platform \<Rightarrow> string \<Rightarrow> string \<Rightarrow> entry \<Rightarrow> outcome \<times> entry" where
  "addTag P editedIso tag e =
     (if tag \<noteq> [] \<and> trim tag \<noteq> [] then
        (case tags e of
           JArr ts \<Rightarrow>
             (if JStr (toLowerCase P (trim tag)) \<notin> set ts
              then (Ok, e\<lparr>tags := JArr (ts @ [JStr (toLowerCase P (trim tag))]),
                          lastEdited := JStr editedIso\<rparr>)
              else (Ok, e))
         | JStr s \<Rightarrow>
             (if \<not> includes_str s (toLowerCase P (trim tag)) then (Threw TypeError, e)
              else (Ok, e))
         | _ \<Rightarrow> (Threw TypeError, e))
      else (Ok, e))"

definition removeTag :: "string \<Rightarrow> string \<Rightarrow> entry \<Rightarrow> outcome \<times> entry" where
  "removeTag editedIso tag e =
     (case tags e of
        JArr ts \<Rightarrow>
          (Ok, e\<lparr>tags := JArr (filter (\<lambda>t. t \<noteq> JStr tag) ts), lastEdited := JStr editedIso\<rparr>)
      | _ \<Rightarrow> (Threw TypeError, e))"

definition setRating :: "string \<Rightarrow> int \<Rightarrow> entry \<Rightarrow> outcome \<times> entry" where
  "setRating editedIso r e =
     (if 1 \<le> r \<and> r \<le> 5 then (Ok, e\<lparr>rating := JNum r, lastEdited := JStr editedIso\<rparr>)
      else (Ok, e))"

text \<open>
  \<open>validate()\<close>. Each required field is tested with \<open>!v || v.trim() === ''\<close>: a truthy
  value that is no string has no \<open>trim\<close> and the test throws. The result is the list
  \<open>errors\<close>; \<open>isValid\<close> is \<open>errors.length === 0\<close>.
\<close>

definition required_missing :: "jsval \<Rightarrow> jserror + bool" where
  "required_missing v =
     (if \<not> truthy v then Inr True
      else case v of JStr s \<Rightarrow> Inr (trim s = []) | _ \<Rightarrow> Inl TypeError)"

definition validate :: "entry \<Rightarrow> jserror + string list" where
  "validate e =
     (case required_missing (sourceType e) of
        Inl err \<Rightarrow> Inl err
      | Inr m1 \<Rightarrow>
     (case required_missing (sourceName e) of
        Inl err \<Rightarrow> Inl err
      | Inr m2 \<Rightarrow>
     (case required_missing (reflection e) of
        Inl err \<Rightarrow> Inl err
      | Inr m3 \<Rightarrow>
          Inr ((if m1 then [''Source type is required''] else []) @
               (if m2 then [''Source name is required''] else []) @
               (if m3 then [''Reflection is required''] else [])))))"

definition isValid :: "string list \<Rightarrow> bool" where
  "isValid errors = (length errors = 0)"

subsection \<open>Sequences of calls on one Entry\<close>

text \<open>
  The eight mutating methods as one type of calls, each carrying its clock readings
  first and then its arguments. \<open>calls\<close> performs a list of them on the same object: an
  exception ends one call, the object stays as that call left it and the next call
  goes on from there.
\<close>

datatype entry_call =
    Update string "(string \<times> jsval) list"
  | AddTakeaway int string string string
  | RemoveTakeaway string int
  | AddRelatedLink int string string string string
  | RemoveRelatedLink string int
  | AddTag string string
  | RemoveTag string string
  | SetRating string int

fun call :: "platform \<Rightarrow> entry_call \<Rightarrow> entry \<Rightarrow> outcome \<times> entry" where
  "call P (Update now updates) e = update P now updates e"
| "call P (AddTakeaway nowMs createdIso editedIso takeaway) e =
     addTakeaway nowMs createdIso editedIso takeaway e"
| "call P (RemoveTakeaway editedIso takeawayId) e = removeTakeaway editedIso takeawayId e"
| "call P (AddRelatedLink nowMs createdIso editedIso url title) e =
     addRelatedLink nowMs createdIso editedIso url title e"
| "call P (RemoveRelatedLink editedIso linkId) e = removeRelatedLink editedIso linkId e"
| "call P (AddTag editedIso tag) e = addTag P editedIso tag e"
| "call P (RemoveTag editedIso tag) e = removeTag editedIso tag e"
| "call P (SetRating editedIso r) e = setRating editedIso r e"



definition calls :: "platform \<Rightarrow> entry_call list \<Rightarrow> entry \<Rightarrow> entry" where
  "calls P cs e = fold (\<lambda>c e'. snd (call P c e')) cs e"

section \<open>The Storage Service (localStorage)\<close>

text \<open>The store is the map from keys to the strings \<open>localStorage\<close> holds.\<close>

type_synonym storage = "string \<rightharpoonup> string"

definition STORAGE_KEY :: string where "STORAGE_KEY = ''readingJournalEntries''"
definition BACKUP_KEY :: string where "BACKUP_KEY = ''readingJournalBackup''"
definition SETTINGS_KEY :: string where "SETTINGS_KEY = ''readingJournalSettings''"

text \<open>\<open>isStorageAvailable()\<close> writes the sentinel key and removes it again; a throwing
  \<open>setItem\<close> is caught and gives \<open>false\<close>.\<close>

definition isStorageAvailable :: "platform \<Rightarrow> storage \<Rightarrow> bool \<times> storage" where
  "isStorageAvailable P items =
     (if setItem_ok P items ''__storage_test__'' ''test''
      then (True, items(''__storage_test__'' := None))
      else (False, items))"



text \<open>\<open>createBackup()\<close>, \<open>now\<close> the timestamp of the backup.\<close>

definition createBackup :: "platform \<Rightarrow> string \<Rightarrow> storage \<Rightarrow> bool \<times> storage" where
  "createBackup P now items =
     (case isStorageAvailable P items of
        (False, s1) \<Rightarrow> (False, s1)
      | (True, s1) \<Rightarrow>
          (case s1 STORAGE_KEY of
             None \<Rightarrow> (True, s1)
           | Some currentData \<Rightarrow>
               if currentData = [] then (True, s1)
               else (let backup = JSON_stringify P
                                    (JObj [(''data'', JStr currentData), (''timestamp'', JStr now)])
                     in if setItem_ok P s1 BACKUP_KEY backup
                        then (True, s1(BACKUP_KEY \<mapsto> backup))
                        else (False, s1))))"

definition getSettings :: "platform \<Rightarrow> storage \<Rightarrow> jsval \<times> storage" where
  "getSettings P items =
     (case isStorageAvailable P items of
        (False, s1) \<Rightarrow> (JObj [], s1)
      | (True, s1) \<Rightarrow>
          (case s1 SETTINGS_KEY of
             None \<Rightarrow> (JObj [], s1)
           | Some settings \<Rightarrow>
               if settings = [] then (JObj [], s1)
               else (case JSON_parse P settings of
                       Some v \<Rightarrow> (v, s1)
                     | None \<Rightarrow> (JObj [], s1))))"

text \<open>\<open>obj[k] = v\<close> on a plain object: an own property keeps its place, a new one comes
  last.\<close>

fun set_prop :: "(string \<times> jsval) list \<Rightarrow> string \<Rightarrow> jsval \<Rightarrow> (string \<times> jsval) list" where
  "set_prop [] k v = [(k, v)]"
| "set_prop (p # ps) k v = (if fst p = k then (k, v) # ps else p # set_prop ps k v)"

text \<open>
  \<open>updateLastSaved()\<close>. \<open>settings.lastSaved = ...\<close> throws on \<open>null\<close> and, the class body
  being strict code, on a primitive; the exception is caught and nothing is written. On
  an array the assignment adds a property that \<open>JSON.stringify\<close> does not print.
\<close>

definition updateLastSaved :: "platform \<Rightarrow> string \<Rightarrow> storage \<Rightarrow> storage" where
  "updateLastSaved P now items =
     (case isStorageAvailable P items of
        (False, s1) \<Rightarrow> s1
      | (True, s1) \<Rightarrow>
          (case getSettings P s1 of
             (JObj ps, s2) \<Rightarrow>
               (let text = JSON_stringify P (JObj (set_prop ps ''lastSaved'' (JStr now)))
                in if setItem_ok P s2 SETTINGS_KEY text then s2(SETTINGS_KEY \<mapsto> text) else s2)
           | (JArr xs, s2) \<Rightarrow>
               (let text = JSON_stringify P (JArr xs)
                in if setItem_ok P s2 SETTINGS_KEY text then s2(SETTINGS_KEY \<mapsto> text) else s2)
           | (_, s2) \<Rightarrow> s2))"

text \<open>\<open>saveEntries(entries)\<close> of the Storage Service; \<open>backupNow\<close> and \<open>savedNow\<close> are the
  clock readings of \<open>createBackup\<close> and \<open>updateLastSaved\<close>.\<close>

definition saveEntries :: "platform \<Rightarrow> string \<Rightarrow> string \<Rightarrow> jsval \<Rightarrow> storage \<Rightarrow> bool \<times> storage" where
  "saveEntries P backupNow savedNow entries items =
     (case isStorageAvailable P items of
        (False, s1) \<Rightarrow> (False, s1)
      | (True, s1) \<Rightarrow>
          (let s2 = snd (createBackup P backupNow s1);
               dataString = JSON_stringify P entries
           in if setItem_ok P s2 STORAGE_KEY dataString
              then (True, updateLastSaved P savedNow (s2(STORAGE_KEY \<mapsto> dataString)))
              else (False, s2)))"

section \<open>The Data Service\<close>

text \<open>
  The service owns the list of entries, the subscribed callbacks and its Storage Service.
  A callback is known by a number; \<open>notified\<close> records every invocation of a callback
  with the event and the data it was given.
\<close>

record data_service =
  entries :: "entry list"
  observers :: "nat list"
  store :: storage
  notified :: "(nat \<times> string \<times> entry option) list"

datatype result = Success entry | Failure string

fun is_Failure :: "result \<Rightarrow> bool" where
  "is_Failure (Failure msg) = True"
| "is_Failure (Success e) = False"

definition notifyObservers :: "string \<Rightarrow> entry option \<Rightarrow> data_service \<Rightarrow> data_service" where
  "notifyObservers event data ds =
     ds\<lparr>notified := notified ds @ map (\<lambda>callback. (callback, event, data)) (observers ds)\<rparr>"

text \<open>\<open>saveEntries()\<close> of the Data Service.\<close>

definition DataService_saveEntries ::
  "platform \<Rightarrow> string \<Rightarrow> string \<Rightarrow> data_service \<Rightarrow> data_service" where
  "DataService_saveEntries P backupNow savedNow ds =
     (let entriesData = JArr (map (\<lambda>entry. JObj (toObject entry)) (entries ds))
      in ds\<lparr>store := snd (saveEntries P backupNow savedNow entriesData (store ds))\<rparr>)"

text \<open>\<open>this.entries.find(entry => entry.id === id)\<close>, as the index of the first match.\<close>

fun find_index :: "('a \<Rightarrow> bool) \<Rightarrow> 'a list \<Rightarrow> nat option" where
  "find_index p [] = None"
| "find_index p (x # xs) = (if p x then Some 0 else map_option Suc (find_index p xs))"

text \<open>
  \<open>updateEntry(id, updates)\<close>, \<open>id\<close> a number. The found entry is changed in place,
  before it is validated; \<open>editNow\<close> is the clock reading of \<open>Entry.update\<close>.
\<close>

definition updateEntry ::
  "platform \<Rightarrow> string \<Rightarrow> string \<Rightarrow> string \<Rightarrow> int \<Rightarrow> (string \<times> jsval) list \<Rightarrow> data_service
     \<Rightarrow> result \<times> data_service" where
  "updateEntry P editNow backupNow savedNow ident updates ds =
     (case find_index (\<lambda>entry. id_field entry = JNum ident) (entries ds) of
        None \<Rightarrow> (Failure ''Entry not found'', ds)
      | Some i \<Rightarrow>
          (case update P editNow updates (entries ds ! i) of
             (Threw err, entry) \<Rightarrow>
               (Failure (error_message P err), ds\<lparr>entries := (entries ds)[i := entry]\<rparr>)
           | (Ok, entry) \<Rightarrow>
               (let ds1 = ds\<lparr>entries := (entries ds)[i := entry]\<rparr>
                in case validate entry of
                     Inl err \<Rightarrow> (Failure (error_message P err), ds1)
                   | Inr errors \<Rightarrow>
                       if \<not> isValid errors then (Failure (join '', '' errors), ds1)
                       else (Success entry,
                             notifyObservers ''entry_updated'' (Some entry)
                               (DataService_saveEntries P backupNow savedNow ds1)))))"

section \<open>The Export Service\<close>

text \<open>The object \<open>exportData\<close> that \<open>exportAsJSON\<close> builds from the entries it is given,
  \<open>now\<close> being \<open>new Date().toISOString()\<close>.\<close>

definition exportData :: "string \<Rightarrow> entry list \<Rightarrow> jsval" where
  "exportData now allEntries =
     JObj [(''metadata'',
              JObj [(''exportDate'', JStr now),
                    (''version'', JStr ''1.0.0''),
                    (''totalEntries'', JNum (int (length allEntries))),
                    (''appName'', JStr ''Reading Journal'')]),
           (''entries'', JArr (map (\<lambda>entry. JObj (toObject entry)) allEntries))]"

text \<open>\<open>getDateString()\<close>: \<open>new Date().toISOString().split('T')[0]\<close>.\<close>

definition getDateString :: "string \<Rightarrow> string" where
  "getDateString now = takeWhile (\<lambda>c. c \<noteq> CHR ''T'') now"

text \<open>
  What the export does to the page: the files handed to the browser as downloads
  (content, file name, MIME type) and the alerts shown.
\<close>

record page =
  downloads :: "(string \<times> string \<times> string) list"
  alerts :: "string list"

text \<open>
  \<open>exportAsJSON()\<close>. \<open>allEntries\<close> is what \<open>this.dataService.getAllEntries()\<close> returns
  (\<open>exportDateRange\<close> swaps that method for one returning the entries it selected);
  \<open>exportNow\<close> and \<open>fileNow\<close> are the two clock readings. \<open>download_ok\<close> tells whether
  \<open>downloadFile\<close> runs through; an exception there is caught, alerted and gives \<open>false\<close>.
\<close>

definition exportAsJSON ::
  "platform \<Rightarrow> bool \<Rightarrow> string \<Rightarrow> string \<Rightarrow> entry list \<Rightarrow> page \<Rightarrow> bool \<times> page" where
  "exportAsJSON P download_ok exportNow fileNow allEntries pg =
     (let dataStr = JSON_stringify_pretty P (exportData exportNow allEntries);
          fileName = ''reading-journal-'' @ getDateString fileNow @ ''.json''
      in if download_ok
         then (True, pg\<lparr>downloads := downloads pg @ [(dataStr, fileName, ''application/json'')]\<rparr>)
         else (False, pg\<lparr>alerts := alerts pg @ [''Failed to export data as JSON. Please try again.'']\<rparr>))"

section \<open>Predicates of the specification\<close>

text \<open>The rating of the data model: absent (\<open>null\<close>) or an integer from 1 to 5.\<close>

fun rating_ok :: "jsval \<Rightarrow> bool" where
  "rating_ok JNull = True"
| "rating_ok (JNum n) = (1 \<le> n \<and> n \<le> 5)"
| "rating_ok v = False"

text \<open>A call that cannot bring the rating out of range: every call but an \<open>update\<close>
  whose object assigns \<open>rating\<close> a value that is neither \<open>null\<close> nor in range.\<close>

fun keeps_rating :: "entry_call \<Rightarrow> bool" where
  "keeps_rating (Update now updates) =
     list_all (\<lambda>kv. fst kv \<noteq> ''rating'' \<or> rating_ok (snd kv)) updates"
| "keeps_rating c = True"







text \<open>
  The types of the data model (section 3 of the specification), for the twelve fields
  the constructor gives a default: the id a number other than 0, the time stamps and
  the formatted date non-empty strings (\<open>lastEdited\<close> may be absent), \<open>editCount\<close> a
  number from 0 on, the free texts strings, the three sequences arrays, the rating as
  above. \<open>sourceType\<close>, \<open>sourceName\<close> and \<open>reflection\<close> are copied as they are.
\<close>

fun is_string :: "jsval \<Rightarrow> bool" where
  "is_string (JStr s) = True"
| "is_string v = False"

fun nonempty_string :: "jsval \<Rightarrow> bool" where
  "nonempty_string (JStr s) = (s \<noteq> [])"
| "nonempty_string v = False"

fun is_array :: "jsval \<Rightarrow> bool" where
  "is_array (JArr xs) = True"
| "is_array v = False"

fun nonzero_number :: "jsval \<Rightarrow> bool" where
  "nonzero_number (JNum n) = (n \<noteq> 0)"
| "nonzero_number v = False"

fun count_number :: "jsval \<Rightarrow> bool" where
  "count_number (JNum n) = (0 \<le> n)"
| "count_number v = False"

definition well_typed :: "entry \<Rightarrow> bool" where
  "well_typed e =
     (nonzero_number (id_field e) \<and>
      is_string (author e) \<and>
      nonempty_string (timestamp e) \<and>
      (lastEdited e = JNull \<or> nonempty_string (lastEdited e)) \<and>
      nonempty_string (dateFormatted e) \<and>
      count_number (editCount e) \<and>
      is_string (additionalNotes e) \<and>
      is_array (keyTakeaways e) \<and>
      is_array (relatedLinks e) \<and>
      is_array (tags e) \<and>
      rating_ok (rating e) \<and>
      is_string (progress e))"

section \<open>A concrete platform and journal\<close>

text \<open>
  Three Greek words in UTF-8: the capitals ALPHA SIGMA (U+0391 U+03A3), and the small
  letters alpha with the final sigma (U+03B1 U+03C2) and with the common sigma (U+03B1
  U+03C3). \<open>toLowerCase\<close> turns the first into the second, a capital sigma at the end
  of a word being written as the final sigma, and leaves the other two as they are.
\<close>

definition ALPHA_SIGMA :: string where
  "ALPHA_SIGMA = [CHR 0xCE, CHR 0x91, CHR 0xCE, CHR 0xA3]"

definition alpha_final_sigma :: string where
  "alpha_final_sigma = [CHR 0xCE, CHR 0xB1, CHR 0xCF, CHR 0x82]"


text \<open>
  One browser, to run the definitions on: a date formatter that knows one day, a
  \<open>toLowerCase\<close> that knows the Greek word above, a number printer that knows 2^53, a
  \<open>JSON.parse\<close> that knows three texts and throws on every other, a store that takes
  every write. The form data are those the page builds for a book, \<open>metadata\<close> included.
\<close>

definition demo_parse :: "string \<Rightarrow> jsval option" where
  \<open>demo_parse s =
     (if s = ''[]'' then Some (JArr [])
      else if s = ''[{}]'' then Some (JArr [JObj []])
      else if s = ''{"data":"[{}]","timestamp":"2025-01-03T00:00:00.000Z"}''
        then Some (JObj [(''data'', JStr ''[{}]''),
                         (''timestamp'', JStr ''2025-01-03T00:00:00.000Z'')])
      else None)\<close>

definition demo_platform :: platform where
  "demo_platform =
     \<lparr> toLocaleDateString = (\<lambda>v. ''Saturday, January 4, 2025''),
       toLowerCase_beyond_ascii = (\<lambda>s. if s = ALPHA_SIGMA then alpha_final_sigma else s),
       toString_beyond_safe = (\<lambda>n. ''9007199254740992''),
       JSON_parse = demo_parse,
       JSON_stringify = (\<lambda>v. ''[]''),
       JSON_stringify_pretty = (\<lambda>v. ''[]''),
       setItem_ok = (\<lambda>items k v. True),
       error_message = (\<lambda>err. ''TypeError'') \<rparr>"

definition demo_form :: "(string \<times> jsval) list" where
  "demo_form =
     [(''sourceType'', JStr ''Book''),
      (''reflection'', JStr ''Great book about focus.''),
      (''sourceName'', JStr ''Deep Work''),
      (''author'', JStr ''Cal Newport''),
      (''metadata'', JObj [(''isbn'', JStr []), (''publisher'', JStr [])])]"

text \<open>The entry \<open>Entry.create\<close> makes of these form data on 4 January 2025.\<close>

definition demo_entry :: entry where
  "demo_entry =
     \<lparr> id_field = JNum 1735948800000,
       sourceType = JStr ''Book'',
       sourceName = JStr ''Deep Work'',
       author = JStr ''Cal Newport'',
       reflection = JStr ''Great book about focus.'',
       timestamp = JStr ''2025-01-04T00:00:00.000Z'',
       lastEdited = JNull,
       dateFormatted = JStr ''Saturday, January 4, 2025'',
       editCount = JNum 0,
       additionalNotes = JStr [],
       keyTakeaways = JArr [],
       relatedLinks = JArr [],
       tags = JArr [],
       rating = JNull,
       progress = JStr [] \<rparr>"

text \<open>The same entry with one tag, one takeaway and one link.\<close>

definition demo_annotated :: entry where
  "demo_annotated =
     demo_entry
       \<lparr> keyTakeaways :=
           JArr [JObj [(''id'', JNum 1735948800001), (''text'', JStr ''Focus is a skill''),
                       (''createdAt'', JStr ''2025-01-04T00:00:01.000Z'')]],
         relatedLinks :=
           JArr [JObj [(''id'', JNum 1735948800002), (''url'', JStr ''https://example.org''),
                       (''title'', JStr ''https://example.org''),
                       (''createdAt'', JStr ''2025-01-04T00:00:02.000Z'')]],
         tags := JArr [JStr ''ai''] \<rparr>"

definition demo_service :: data_service where
  "demo_service =
     \<lparr> entries = [demo_entry], observers = [0], store = Map.empty, notified = [] \<rparr>"



section \<open>Properties\<close>

subsection \<open>Auxiliary facts\<close>

lemma get_prop_simps [simp]:
  "get_prop [] k = JUndefined"
  "get_prop ((k', v) # ps) k = (if k' = k then v else get_prop ps k)"
  by (simp_all add: get_prop_def)

lemma apply_update_frame [simp]:
  "id_field (apply_update kv e) = id_field e"
  "timestamp (apply_update kv e) = timestamp e"
  by (simp_all add: apply_update_def set_field_def)

lemma fold_apply_update_frame [simp]:
  "id_field (fold apply_update u e) = id_field e"
  "timestamp (fold apply_update u e) = timestamp e"
  by (induction u arbitrary: e) simp_all

lemma apply_update_other_key:
  "''editCount'' \<noteq> fst kv \<Longrightarrow> editCount (apply_update kv e) = editCount e"
  by (auto simp add: apply_update_def set_field_def)

lemma fold_apply_update_editCount:
  "''editCount'' \<notin> fst ` set u \<Longrightarrow> editCount (fold apply_update u e) = editCount e"
  by (induction u arbitrary: e) (simp_all add: apply_update_other_key)

lemma formatDate_string:
  "timestamp e = JStr s \<Longrightarrow> formatDate P e = Inr (toLocaleDateString P (JStr s))"
  by (simp add: formatDate_def new_Date_throws_def)










subsection \<open>The factory\<close>

text \<open>
  Claim C9. For every form data object, \<open>Entry.create\<close> returns an entry, for which it
  reads the four fields \<open>sourceType\<close>, \<open>sourceName\<close>, \<open>author\<close> and \<open>reflection\<close> and
  nothing else: the id and the time stamp come from the clock, the takeaways, links and
  tags start empty, the rating and \<open>lastEdited\<close> are absent, \<open>editCount\<close> is 0, and the
  plain object of the new entry has no \<open>metadata\<close> property, whatever the form data
  carry.
\<close>

theorem create_reads_four_fields:
  "create P nowMs nowIso formData =
     Inr \<lparr> id_field = JNum nowMs,
           sourceType = get_prop formData ''sourceType'',
           sourceName = get_prop formData ''sourceName'',
           author = js_or (get_prop formData ''author'') (JStr []),
           reflection = get_prop formData ''reflection'',
           timestamp = JStr nowIso,
           lastEdited = JNull,
           dateFormatted = JStr (toLocaleDateString P (JStr nowIso)),
           editCount = JNum 0,
           additionalNotes = JStr [],
           keyTakeaways = JArr [],
           relatedLinks = JArr [],
           tags = JArr [],
           rating = JNull,
           progress = JStr [] \<rparr>
   \<and> map_of (toObject (projr (create P nowMs nowIso formData))) ''metadata'' = None"
  by (simp add: create_def Entry_def js_or_def toObject_def Let_def formatDate_def
      new_Date_throws_def)

subsection \<open>\<open>update\<close>\<close>

text \<open>
  Two limits of \<open>update\<close>. At 2^53 the counter stands still: 2^53 + 1 is no double
  and the sum rounds back to 2^53. And \<open>formatDate\<close> throws where the time stamp is an
  object with an own property \<open>toString\<close> (an entry loaded from a store that held such
  a time stamp together with a \<open>dateFormatted\<close>): the exception leaves the fields,
  \<open>lastEdited\<close> and \<open>editCount\<close> written and \<open>dateFormatted\<close> as it was.
\<close>

lemma update_editCount_rounds:
  "''editCount'' \<notin> fst ` set u \<Longrightarrow> editCount e = JNum (2 ^ 53) \<Longrightarrow>
   editCount (snd (update P now u e)) = JNum (2 ^ 53)"
  by (simp add: update_def Let_def fold_apply_update_editCount double_plus_one_def
      split: sum.split)

lemma update_throws_in_formatDate:
  "timestamp e = JObj ps \<Longrightarrow> ''toString'' \<in> fst ` set ps \<Longrightarrow>
   ''editCount'' \<notin> fst ` set u \<Longrightarrow> editCount e = JNum n \<Longrightarrow>
   update P now u e =
     (Threw TypeError,
      (fold apply_update u e)\<lparr>lastEdited := JStr now, editCount := JNum (double_plus_one n)\<rparr>)"
  by (simp add: update_def Let_def fold_apply_update_editCount formatDate_def
      new_Date_throws_def)




subsection \<open>One protocol for the eight mutations?\<close>




subsection \<open>Removals that remove nothing\<close>




subsection \<open>The rating\<close>

lemma apply_update_rating:
  "rating_ok (rating e) \<Longrightarrow> fst kv \<noteq> ''rating'' \<or> rating_ok (snd kv) \<Longrightarrow>
   rating_ok (rating (apply_update kv e))"
  by (auto simp: apply_update_def set_field_def)

lemma fold_apply_update_rating:
  "rating_ok (rating e) \<Longrightarrow> list_all (\<lambda>kv. fst kv \<noteq> ''rating'' \<or> rating_ok (snd kv)) u \<Longrightarrow>
   rating_ok (rating (fold apply_update u e))"
  by (induction u arbitrary: e) (simp_all add: apply_update_rating)

lemma call_rating:
  assumes "rating_ok (rating e)" and "keeps_rating c"
  shows "rating_ok (rating (snd (call P c e)))"
proof (cases c)
  case (Update now u)
  then show ?thesis using assms fold_apply_update_rating [of e u]
    by (simp add: update_def Let_def split: sum.split)
next
  case (SetRating editedIso r)
  then show ?thesis using assms by (simp add: setRating_def)
qed (use assms in \<open>auto simp: addTakeaway_def removeTakeaway_def addRelatedLink_def
      removeRelatedLink_def addTag_def removeTag_def split: jsval.splits\<close>)

lemma calls_rating:
  "rating_ok (rating e) \<Longrightarrow> list_all keeps_rating cs \<Longrightarrow> rating_ok (rating (calls P cs e))"
  unfolding calls_def
  by (induction cs arbitrary: e) (simp_all add: call_rating)

text \<open>
  Claim C3, as stated: after any sequence of operations, \<open>update\<close> with arbitrary
  fields among them, a rating that is present lies in 1 to 5. \<open>update\<close> checks nothing:
  \<open>update({rating: 7})\<close> on a new entry returns and leaves the rating 7.
\<close>

theorem update_rating_counterexample:
  "rating demo_entry = JNull \<and>
   fst (call demo_platform (Update ''2025-01-05T00:00:00.000Z'' [(''rating'', JNum 7)]) demo_entry) = Ok \<and>
   rating (calls demo_platform [Update ''2025-01-05T00:00:00.000Z'' [(''rating'', JNum 7)]] demo_entry) =
     JNum 7 \<and>
   \<not> rating_ok (JNum 7)"
  by (simp add: calls_def demo_entry_def update_def Let_def apply_update_def
      hasOwnProperty_def set_field_def formatDate_def new_Date_throws_def)

text \<open>
  Claim C3, amended. A new entry has no rating, and from an entry whose rating is
  absent or an integer in 1 to 5, every sequence of calls of the eight mutations
  (\<open>setRating\<close> with any integer among them) in which no \<open>update\<close> assigns \<open>rating\<close> a
  value other than \<open>null\<close> or an integer in 1 to 5 ends with the rating absent or an
  integer in 1 to 5.
\<close>

theorem rating_stays_in_range:
  "(\<exists>e0. create P nowMs nowIso formData = Inr e0 \<and> rating e0 = JNull \<and> rating_ok (rating e0)) \<and>
   (rating_ok (rating e) \<and> list_all keeps_rating cs \<longrightarrow> rating_ok (rating (calls P cs e)))"
  by (simp add: calls_rating create_def Entry_def js_or_def Let_def formatDate_def
      new_Date_throws_def)

theorem rating_stays_in_range_witness:
  "rating_ok (rating demo_entry) \<and>
   list_all keeps_rating
     [SetRating ''2025-01-05T00:00:00.000Z'' 9,
      SetRating ''2025-01-05T00:00:01.000Z'' 4,
      Update ''2025-01-05T00:00:02.000Z'' [(''progress'', JStr ''Reading'')],
      SetRating ''2025-01-05T00:00:03.000Z'' (- 2)] \<and>
   rating_ok (rating (calls demo_platform
     [SetRating ''2025-01-05T00:00:00.000Z'' 9,
      SetRating ''2025-01-05T00:00:01.000Z'' 4,
      Update ''2025-01-05T00:00:02.000Z'' [(''progress'', JStr ''Reading'')],
      SetRating ''2025-01-05T00:00:03.000Z'' (- 2)] demo_entry)) \<and>
   rating (calls demo_platform
     [SetRating ''2025-01-05T00:00:00.000Z'' 9,
      SetRating ''2025-01-05T00:00:01.000Z'' 4,
      Update ''2025-01-05T00:00:02.000Z'' [(''progress'', JStr ''Reading'')],
      SetRating ''2025-01-05T00:00:03.000Z'' (- 2)] demo_entry) = JNum 4"
  using rating_stays_in_range [of demo_platform 1735948800000 "''2025-01-04T00:00:00.000Z''"
      demo_form demo_entry
      "[SetRating ''2025-01-05T00:00:00.000Z'' 9,
        SetRating ''2025-01-05T00:00:01.000Z'' 4,
        Update ''2025-01-05T00:00:02.000Z'' [(''progress'', JStr ''Reading'')],
        SetRating ''2025-01-05T00:00:03.000Z'' (- 2)]"]
  by (simp add: calls_def demo_entry_def setRating_def update_def Let_def apply_update_def
      hasOwnProperty_def set_field_def formatDate_def new_Date_throws_def double_plus_one_def)

subsection \<open>The round trip through the plain object\<close>

lemma js_or_keeps:
  "nonzero_number v \<Longrightarrow> js_or v d = v"
  "nonempty_string v \<Longrightarrow> js_or v d = v"
  "is_array v \<Longrightarrow> js_or v d = v"
  "is_string v \<Longrightarrow> js_or v (JStr []) = v"
  "count_number v \<Longrightarrow> js_or v (JNum 0) = v"
  "rating_ok v \<Longrightarrow> js_or v JNull = v"
  "v = JNull \<or> nonempty_string v \<Longrightarrow> js_or v JNull = v"
  by (cases v; auto simp: js_or_def)+

lemma nonempty_string_truthy: "nonempty_string v \<Longrightarrow> truthy v"
  by (cases v) simp_all

lemma toObject_props:
  "get_prop (toObject e) ''id'' = id_field e"
  "get_prop (toObject e) ''sourceType'' = sourceType e"
  "get_prop (toObject e) ''sourceName'' = sourceName e"
  "get_prop (toObject e) ''author'' = author e"
  "get_prop (toObject e) ''reflection'' = reflection e"
  "get_prop (toObject e) ''timestamp'' = timestamp e"
  "get_prop (toObject e) ''lastEdited'' = lastEdited e"
  "get_prop (toObject e) ''dateFormatted'' = dateFormatted e"
  "get_prop (toObject e) ''editCount'' = editCount e"
  "get_prop (toObject e) ''additionalNotes'' = additionalNotes e"
  "get_prop (toObject e) ''keyTakeaways'' = keyTakeaways e"
  "get_prop (toObject e) ''relatedLinks'' = relatedLinks e"
  "get_prop (toObject e) ''tags'' = tags e"
  "get_prop (toObject e) ''rating'' = rating e"
  "get_prop (toObject e) ''progress'' = progress e"
  by (simp_all add: toObject_def)

text \<open>
  Claim C4, as stated: \<open>toObject\<close> and then the constructor give back every Entry. The
  constructor replaces every falsy value by its default, so an entry holding a falsy
  value that is not the default comes back changed: after \<open>update({rating: 0})\<close> the
  rating is 0, and the entry rebuilt from its plain object has the rating \<open>null\<close>.
\<close>

theorem roundtrip_rating_counterexample:
  "update demo_platform ''2025-01-05T00:00:00.000Z'' [(''rating'', JNum 0)] demo_entry =
     (Ok, demo_entry\<lparr>lastEdited := JStr ''2025-01-05T00:00:00.000Z'', editCount := JNum 1,
                     rating := JNum 0\<rparr>) \<and>
   Entry demo_platform 1736035200000 ''2025-01-05T00:00:00.000Z''
     (toObject (demo_entry\<lparr>lastEdited := JStr ''2025-01-05T00:00:00.000Z'', editCount := JNum 1,
                           rating := JNum 0\<rparr>)) =
     Inr (demo_entry\<lparr>lastEdited := JStr ''2025-01-05T00:00:00.000Z'', editCount := JNum 1,
                     rating := JNull\<rparr>) \<and>
   Entry demo_platform 1736035200000 ''2025-01-05T00:00:00.000Z''
     (toObject (demo_entry\<lparr>lastEdited := JStr ''2025-01-05T00:00:00.000Z'', editCount := JNum 1,
                           rating := JNum 0\<rparr>)) \<noteq>
     Inr (demo_entry\<lparr>lastEdited := JStr ''2025-01-05T00:00:00.000Z'', editCount := JNum 1,
                     rating := JNum 0\<rparr>)"
  by (simp add: demo_entry_def update_def Let_def apply_update_def hasOwnProperty_def
      set_field_def formatDate_def new_Date_throws_def demo_platform_def Entry_def toObject_def
      js_or_def double_plus_one_def)

text \<open>
  Claim C4, amended. For every Entry whose fields hold values of the data model's
  types, \<open>toObject\<close> and then the constructor give back an Entry equal to it in all
  fifteen fields, the takeaways, links and tags with all their elements included,
  whatever the clock shows at the time.
\<close>

theorem roundtrip_well_typed:
  "well_typed e \<Longrightarrow> Entry P nowMs nowIso (toObject e) = Inr e"
  by (simp add: well_typed_def Entry_def toObject_props js_or_keeps nonempty_string_truthy
      Let_def)

theorem roundtrip_well_typed_witness:
  "well_typed (demo_annotated\<lparr>rating := JNum 4, lastEdited := JStr ''2025-01-05T00:00:00.000Z''\<rparr>) \<and>
   Entry demo_platform 1736035200000 ''2025-01-06T00:00:00.000Z''
     (toObject (demo_annotated\<lparr>rating := JNum 4,
                                lastEdited := JStr ''2025-01-05T00:00:00.000Z''\<rparr>)) =
     Inr (demo_annotated\<lparr>rating := JNum 4, lastEdited := JStr ''2025-01-05T00:00:00.000Z''\<rparr>)"
  using roundtrip_well_typed [of
      "demo_annotated\<lparr>rating := JNum 4, lastEdited := JStr ''2025-01-05T00:00:00.000Z''\<rparr>"
      demo_platform 1736035200000 "''2025-01-06T00:00:00.000Z''"]
  by (simp add: well_typed_def demo_annotated_def demo_entry_def)

subsection \<open>Tags\<close>















subsection \<open>\<open>updateEntry\<close> of the Data Service\<close>

lemma updateEntry_failure_unsaved:
  "is_Failure (fst (updateEntry P editNow backupNow savedNow ident updates ds)) \<Longrightarrow>
   store (snd (updateEntry P editNow backupNow savedNow ident updates ds)) = store ds \<and>
   notified (snd (updateEntry P editNow backupNow savedNow ident updates ds)) = notified ds"
  by (auto simp: updateEntry_def Let_def split: option.splits prod.splits outcome.splits
      sum.splits if_splits)

lemma updateEntry_invalid:
  assumes "find_index (\<lambda>entry. id_field entry = JNum ident) (entries ds) = Some i"
    and "update P editNow updates (entries ds ! i) = (Ok, entry)"
    and "validate entry = Inr errors" and "\<not> isValid errors"
  shows "updateEntry P editNow backupNow savedNow ident updates ds =
           (Failure (join '', '' errors), ds\<lparr>entries := (entries ds)[i := entry]\<rparr>)"
  using assms by (simp add: updateEntry_def Let_def)

lemma updateEntry_keeps_mutation:
  assumes "find_index (\<lambda>entry. id_field entry = JNum ident) (entries ds) = Some i"
  shows "entries (snd (updateEntry P editNow backupNow savedNow ident updates ds)) =
           (entries ds)[i := snd (update P editNow updates (entries ds ! i))]"
  using assms
  by (auto simp: updateEntry_def Let_def notifyObservers_def DataService_saveEntries_def
      split: prod.splits outcome.splits sum.splits)

lemma updateEntry_success:
  assumes "updateEntry P editNow backupNow savedNow ident updates ds = (Success entry, ds')"
  shows "notified ds' =
           notified ds @ map (\<lambda>callback. (callback, ''entry_updated'', Some entry)) (observers ds) \<and>
         store ds' =
           snd (saveEntries P backupNow savedNow
                  (JArr (map (\<lambda>entry. JObj (toObject entry)) (entries ds'))) (store ds))"
  using assms
  by (auto simp: updateEntry_def Let_def notifyObservers_def DataService_saveEntries_def
      split: option.splits prod.splits outcome.splits sum.splits if_splits)

text \<open>
  Claim C2. When the entry with the given id is found, updated, and then fails
  validation, \<open>updateEntry\<close> returns a failure carrying the error list and the service
  keeps the updated entry in place of the old one: nothing is rolled back. Whatever the
  id and the update object, a found entry is left as \<open>Entry.update\<close> left it, and a
  call that returns a failure has written nothing to the store and notified no
  observer: saving and the \<open>entry_updated\<close> notification happen on success only.
\<close>

theorem updateEntry_failure_not_rolled_back:
  "(find_index (\<lambda>entry. id_field entry = JNum ident) (entries ds) = Some i \<and>
    update P editNow updates (entries ds ! i) = (Ok, entry) \<and>
    validate entry = Inr errors \<and> \<not> isValid errors \<longrightarrow>
      updateEntry P editNow backupNow savedNow ident updates ds =
        (Failure (join '', '' errors), ds\<lparr>entries := (entries ds)[i := entry]\<rparr>)) \<and>
   (find_index (\<lambda>entry. id_field entry = JNum ident) (entries ds) = Some i \<longrightarrow>
      entries (snd (updateEntry P editNow backupNow savedNow ident updates ds)) =
        (entries ds)[i := snd (update P editNow updates (entries ds ! i))]) \<and>
   (is_Failure (fst (updateEntry P editNow backupNow savedNow ident updates ds)) \<longrightarrow>
      store (snd (updateEntry P editNow backupNow savedNow ident updates ds)) = store ds \<and>
      notified (snd (updateEntry P editNow backupNow savedNow ident updates ds)) = notified ds)"
  using updateEntry_invalid [of ident ds i P editNow updates entry errors backupNow savedNow]
    updateEntry_keeps_mutation [of ident ds i P editNow backupNow savedNow updates]
    updateEntry_failure_unsaved [of P editNow backupNow savedNow ident updates ds]
  by simp

theorem updateEntry_failure_not_rolled_back_witness:
  "find_index (\<lambda>entry. id_field entry = JNum 1735948800000) (entries demo_service) = Some 0 \<and>
   update demo_platform ''2025-01-05T00:00:00.000Z'' [(''reflection'', JStr ''   '')]
       (entries demo_service ! 0) =
     (Ok, demo_entry\<lparr>reflection := JStr ''   '', lastEdited := JStr ''2025-01-05T00:00:00.000Z'',
                     editCount := JNum 1\<rparr>) \<and>
   validate (demo_entry\<lparr>reflection := JStr ''   '',
                        lastEdited := JStr ''2025-01-05T00:00:00.000Z'', editCount := JNum 1\<rparr>) =
     Inr [''Reflection is required''] \<and>
   \<not> isValid [''Reflection is required''] \<and>
   updateEntry demo_platform ''2025-01-05T00:00:00.000Z'' ''2025-01-05T00:00:00.001Z''
       ''2025-01-05T00:00:00.002Z'' 1735948800000 [(''reflection'', JStr ''   '')] demo_service =
     (Failure ''Reflection is required'',
      demo_service\<lparr>entries :=
        [demo_entry\<lparr>reflection := JStr ''   '', lastEdited := JStr ''2025-01-05T00:00:00.000Z'',
                    editCount := JNum 1\<rparr>]\<rparr>) \<and>
   store (snd (updateEntry demo_platform ''2025-01-05T00:00:00.000Z'' ''2025-01-05T00:00:00.001Z''
       ''2025-01-05T00:00:00.002Z'' 1735948800000 [(''reflection'', JStr ''   '')] demo_service)) =
     Map.empty \<and>
   notified (snd (updateEntry demo_platform ''2025-01-05T00:00:00.000Z''
       ''2025-01-05T00:00:00.001Z'' ''2025-01-05T00:00:00.002Z'' 1735948800000
       [(''reflection'', JStr ''   '')] demo_service)) = []"
proof -
  have found: "find_index (\<lambda>entry. id_field entry = JNum 1735948800000) (entries demo_service) =
      Some 0"
    by (simp add: demo_service_def demo_entry_def)
  have updated: "update demo_platform ''2025-01-05T00:00:00.000Z'' [(''reflection'', JStr ''   '')]
       (entries demo_service ! 0) =
     (Ok, demo_entry\<lparr>reflection := JStr ''   '', lastEdited := JStr ''2025-01-05T00:00:00.000Z'',
                     editCount := JNum 1\<rparr>)"
    by (simp add: demo_service_def demo_entry_def update_def Let_def apply_update_def
        hasOwnProperty_def set_field_def formatDate_def new_Date_throws_def demo_platform_def
        double_plus_one_def)
  have invalid: "validate (demo_entry\<lparr>reflection := JStr ''   '',
      lastEdited := JStr ''2025-01-05T00:00:00.000Z'', editCount := JNum 1\<rparr>) =
      Inr [''Reflection is required'']"
    by (simp add: demo_entry_def validate_def required_missing_def trim_def space1_def
        space2_def space3_def Let_def)
  have errors: "\<not> isValid [''Reflection is required'']"
    by (simp add: isValid_def)
  show ?thesis
    using updateEntry_failure_not_rolled_back [of 1735948800000 demo_service 0 demo_platform
        "''2025-01-05T00:00:00.000Z''" "[(''reflection'', JStr ''   '')]"
        "demo_entry\<lparr>reflection := JStr ''   '', lastEdited := JStr ''2025-01-05T00:00:00.000Z'',
                    editCount := JNum 1\<rparr>"
        "[''Reflection is required'']" "''2025-01-05T00:00:00.001Z''"
        "''2025-01-05T00:00:00.002Z''"]
      found updated invalid errors
    by (simp add: demo_service_def)
qed

subsection \<open>Reading the store\<close>








subsection \<open>The JSON export\<close>

text \<open>
  Claim C8, as stated: the export document is a function of the entries alone, and
  building it has no effect. \<open>exportAsJSON\<close> reads the clock for \<open>exportDate\<close> and hands
  a file to the browser: the same entries exported at two instants give two different
  documents, and the page is not the same after the call.
\<close>

theorem exportAsJSON_counterexample:
  "exportData ''2025-01-04T00:00:00.000Z'' [demo_entry] \<noteq>
     exportData ''2025-01-05T00:00:00.000Z'' [demo_entry] \<and>
   snd (exportAsJSON demo_platform True ''2025-01-04T00:00:00.000Z'' ''2025-01-04T00:00:00.001Z''
          [demo_entry] \<lparr>downloads = [], alerts = []\<rparr>) \<noteq>
     \<lparr>downloads = [], alerts = []\<rparr>"
  by (simp add: exportData_def exportAsJSON_def Let_def)

text \<open>
  Claim C8, amended. The export document is a function of the entries and of the
  clock reading taken for \<open>exportDate\<close>: its \<open>entries\<close> are the plain objects of the
  entries in their order, its \<open>metadata\<close> are the export date, the version, the number
  of entries and the application name, and two documents for the same entries are
  equal exactly when their clock readings are. \<open>exportAsJSON\<close> is no pure function: a
  call that succeeds hands the printed document to the browser as a download.
\<close>

theorem exportData_of_entries_and_clock:
  "get_member (exportData now es) ''entries'' =
     Some (JArr (map (\<lambda>e. JObj (toObject e)) es)) \<and>
   get_member (exportData now es) ''metadata'' =
     Some (JObj [(''exportDate'', JStr now), (''version'', JStr ''1.0.0''),
                 (''totalEntries'', JNum (int (length es))),
                 (''appName'', JStr ''Reading Journal'')]) \<and>
   ((exportData now es = exportData now' es) = (now = now')) \<and>
   exportAsJSON P True now fileNow es pg =
     (True, pg\<lparr>downloads := downloads pg @
        [(JSON_stringify_pretty P (exportData now es),
          ''reading-journal-'' @ getDateString fileNow @ ''.json'', ''application/json'')]\<rparr>)"
  by (simp add: exportData_def exportAsJSON_def Let_def)

end
